theory Spec2Isabelle
  imports Main
begin

section \<open>The Python values that \<open>check_url\<close> handles\<close>

text \<open>
  The repository is one function, \<open>check_url\<close> in \<open>url_checker.py\<close>. It calls two
  library functions, \<open>urllib.parse.urlparse\<close> and \<open>requests.get\<close>, which are not part
  of the repository: both are parameters of the model (the record \<open>env\<close> below), and a
  theorem about \<open>check_url\<close> holds for every behaviour of the two. Where a property
  is about what the parser does on one input, the parser of the standard library is
  modelled as well (\<open>urllib_urlparse\<close> below) and put in the place of the parameter.

  A Python string is modelled as a \<open>string\<close>, the list of the bytes of its UTF-8
  encoding. The texts the code returns, the phrases it searches for and the characters
  a URL is split at are ASCII, one byte each, and no byte of a longer character is an
  ASCII byte, so searching and splitting the bytes finds what Python finds in the
  string. Lower-casing is another matter: \<open>str.lower()\<close> follows the Unicode case
  tables of the interpreter (it maps U+212A KELVIN SIGN to \<open>k\<close>, for one). The model
  takes it as a parameter, \<open>str_lower\<close> in the record \<open>env\<close>, like the two library
  functions.
\<close>

subsection \<open>Exceptions\<close>

text \<open>
  The exception classes the code names in its handlers, with the classes of
  \<open>requests.exceptions\<close> and of the builtins around them. \<open>ConnectionError\<close> and
  \<open>Timeout\<close> are the classes of \<open>requests.exceptions\<close>, as in the source. The model
  covers the exceptions that derive from \<open>Exception\<close>, which are the ones a call of
  \<open>urlparse\<close> or \<open>requests.get\<close> raises; an interrupt delivered to the process from
  outside (\<open>KeyboardInterrupt\<close>, \<open>SystemExit\<close>) is not an outcome of either call.
\<close>

datatype exc_class =
    Exception
  | OSError
  | ValueError
  | TypeError
  | RequestException
  | HTTPError
  | ConnectionError
  | ProxyError
  | SSLError
  | Timeout
  | ConnectTimeout
  | ReadTimeout
  | TooManyRedirects
  | MissingSchema
  | InvalidSchema
  | InvalidURL
  | ChunkedEncodingError
  | ContentDecodingError
  | RetryError

text \<open>The class itself and all the classes it inherits from.\<close>

fun superclasses :: "exc_class \<Rightarrow> exc_class list" where
  "superclasses Exception = [Exception]"
| "superclasses OSError = [OSError, Exception]"
| "superclasses ValueError = [ValueError, Exception]"
| "superclasses TypeError = [TypeError, Exception]"
| "superclasses RequestException = [RequestException, OSError, Exception]"
| "superclasses HTTPError = [HTTPError, RequestException, OSError, Exception]"
| "superclasses ConnectionError = [ConnectionError, RequestException, OSError, Exception]"
| "superclasses ProxyError =
     [ProxyError, ConnectionError, RequestException, OSError, Exception]"
| "superclasses SSLError =
     [SSLError, ConnectionError, RequestException, OSError, Exception]"
| "superclasses Timeout = [Timeout, RequestException, OSError, Exception]"
| "superclasses ConnectTimeout =
     [ConnectTimeout, ConnectionError, Timeout, RequestException, OSError, Exception]"
| "superclasses ReadTimeout = [ReadTimeout, Timeout, RequestException, OSError, Exception]"
| "superclasses TooManyRedirects = [TooManyRedirects, RequestException, OSError, Exception]"
| "superclasses MissingSchema =
     [MissingSchema, RequestException, OSError, ValueError, Exception]"
| "superclasses InvalidSchema =
     [InvalidSchema, RequestException, OSError, ValueError, Exception]"
| "superclasses InvalidURL = [InvalidURL, RequestException, OSError, ValueError, Exception]"
| "superclasses ChunkedEncodingError =
     [ChunkedEncodingError, RequestException, OSError, Exception]"
| "superclasses ContentDecodingError =
     [ContentDecodingError, RequestException, OSError, Exception]"
| "superclasses RetryError = [RetryError, RequestException, OSError, Exception]"

text \<open>A raised exception: its class and the text \<open>str(e)\<close> gives.\<close>

record exc =
  exc_class :: exc_class
  exc_str :: string

definition isinstance :: "exc \<Rightarrow> exc_class \<Rightarrow> bool" where
  "isinstance e k = (k \<in> set (superclasses (exc_class e)))"

text \<open>
  \<open>try: body except K1: h1 except K2: h2 ...\<close>: the handlers are tried in the order
  they are written, the first whose class the exception is an instance of runs, and an
  exception no handler matches propagates (\<open>Inl\<close>).
\<close>

fun handle :: "(exc_class \<times> (exc \<Rightarrow> 'a)) list \<Rightarrow> exc \<Rightarrow> exc + 'a" where
  "handle [] e = Inl e"
| "handle ((k, h) # hs) e = (if isinstance e k then Inr (h e) else handle hs e)"

definition try_except :: "exc + 'a \<Rightarrow> (exc_class \<times> (exc \<Rightarrow> 'a)) list \<Rightarrow> exc + 'a" where
  "try_except body hs = (case body of Inr v \<Rightarrow> Inr v | Inl e \<Rightarrow> handle hs e)"

subsection \<open>Strings\<close>

text \<open>
  Lower-casing of ASCII text: the letters A to Z become a to z and every other byte is
  kept. This is what \<open>str.lower()\<close> gives on a string of ASCII characters.
\<close>

definition ascii_lower_char :: "char \<Rightarrow> char" where
  "ascii_lower_char c =
     (case map_of (zip ''ABCDEFGHIJKLMNOPQRSTUVWXYZ'' ''abcdefghijklmnopqrstuvwxyz'') c of
        Some l \<Rightarrow> l
      | None \<Rightarrow> c)"

definition ascii_lower :: "string \<Rightarrow> string" where
  "ascii_lower s = map ascii_lower_char s"

text \<open>\<open>pat in s\<close> for strings: \<open>pat\<close> occurs in \<open>s\<close> as a contiguous piece.\<close>

fun startswith :: "string \<Rightarrow> string \<Rightarrow> bool" where
  "startswith s [] = True"
| "startswith [] (p # ps) = False"
| "startswith (c # cs) (p # ps) = (c = p \<and> startswith cs ps)"

fun str_in :: "string \<Rightarrow> string \<Rightarrow> bool" where
  "str_in pat [] = (pat = [])"
| "str_in pat (c # cs) = (startswith (c # cs) pat \<or> str_in pat cs)"

text \<open>\<open>str(n)\<close> for an integer, as an f-string formats it: decimal, with a sign.\<close>

definition digit_char :: "nat \<Rightarrow> char" where
  "digit_char d = ''0123456789'' ! d"

function str_nat :: "nat \<Rightarrow> string" where
  "str_nat n = (if n < 10 then [digit_char n] else str_nat (n div 10) @ [digit_char (n mod 10)])"
  by pat_completeness auto
termination
  by (relation "measure id") auto

declare str_nat.simps [simp del]

definition str_int :: "int \<Rightarrow> string" where
  "str_int i = (if i < 0 then CHR ''-'' # str_nat (nat (- i)) else str_nat (nat i))"

subsection \<open>Parsed URLs, requests and responses\<close>

text \<open>The six fields of \<open>urllib.parse.ParseResult\<close>; the code reads the first two.\<close>

record parse_result =
  scheme :: string
  netloc :: string
  path :: string
  params :: string
  query :: string
  fragment :: string

text \<open>The arguments of the one call \<open>requests.get(url, timeout=..., allow_redirects=True, headers=...)\<close>.\<close>

record request =
  req_url :: string
  req_timeout :: int
  allow_redirects :: bool
  headers :: "(string \<times> string) list"

text \<open>
  What the code reads of a \<open>requests.Response\<close>: the status code, the final URL and the
  history, the list of the responses that were redirected (each by its status code and URL).
\<close>

record response =
  status_code :: int
  response_url :: string
  history :: "(int \<times> string) list"

text \<open>
  The two library functions and \<open>str.lower()\<close>. Each of the two functions returns a
  value or raises (\<open>Inl\<close>); a call that never returns is not modelled. The theorems
  quantify over \<open>env\<close>, so they hold whatever the parser and the network answer and
  whatever the case tables are.
\<close>

record env =
  urlparse :: "string \<Rightarrow> exc + parse_result"
  requests_get :: "request \<Rightarrow> exc + response"
  str_lower :: "string \<Rightarrow> string"

section \<open>\<open>check_url\<close>\<close>

type_synonym outcome = "bool \<times> string"

definition browser_agent :: string where
  "browser_agent = ''Mozilla/5.0 (Windows NT 10.0; Win64; x64) AppleWebKit/537.36 (KHTML, like Gecko) Chrome/120.0.0.0 Safari/537.36''"

text \<open>
  Lines 24 to 30, the body of the first \<open>try\<close>: \<open>Some r\<close> is \<open>return r\<close>, \<open>None\<close> is
  reaching the end of the block without returning.
\<close>

definition validate_body :: "env \<Rightarrow> string \<Rightarrow> exc + outcome option" where
  "validate_body ev url =
     (case urlparse ev url of
        Inl e \<Rightarrow> Inl e
      | Inr parsed \<Rightarrow>
          if scheme parsed = [] then
            Inr (Some (False, ''Invalid URL: Missing protocol (http:// or https://)''))
          else if netloc parsed = [] then
            Inr (Some (False, ''Invalid URL: Malformed URL format''))
          else if scheme parsed \<notin> set [''http'', ''https''] then
            Inr (Some (False,
              ''Invalid URL: Unsupported protocol '' @ [CHR 0x27] @ scheme parsed @ [CHR 0x27]))
          else Inr None)"

text \<open>Lines 23 to 32: the first \<open>try\<close> with its one handler.\<close>

definition validate :: "env \<Rightarrow> string \<Rightarrow> exc + outcome option" where
  "validate ev url =
     try_except (validate_body ev url)
       [(Exception, \<lambda>e. Some (False, ''Invalid URL format: '' @ exc_str e))]"

text \<open>Lines 44 to 54: the classification of a response.\<close>

definition classify_response :: "response \<Rightarrow> outcome" where
  "classify_response r =
     (if history r \<noteq> [] then (True, ''Redirects to '' @ response_url r)
      else if status_code r = 404 then (False, ''404 Not Found'')
      else if 400 \<le> status_code r \<and> status_code r < 600 then
        (False, ''HTTP '' @ str_int (status_code r) @ '' error'')
      else (True, ''URL is accessible''))"

text \<open>Lines 59 to 66: the handler of \<open>requests.exceptions.ConnectionError\<close>.\<close>

definition connection_error_outcome :: "env \<Rightarrow> exc \<Rightarrow> outcome" where
  "connection_error_outcome ev e =
     (let error_msg = str_lower ev (exc_str e) in
      if str_in ''nodename nor servname provided'' error_msg
         \<or> str_in ''name or service not known'' error_msg
         \<or> str_in ''getaddrinfo failed'' error_msg then
        (False, ''DNS resolution failed: Unable to resolve domain name'')
      else if str_in ''connection refused'' error_msg then
        (False, ''Connection refused: Server is not accepting connections'')
      else (False, ''Network connection error: Unable to connect to server''))"

text \<open>Lines 40 to 75: the second \<open>try\<close> with its five handlers, in the source's order.\<close>

definition attempt_request :: "env \<Rightarrow> request \<Rightarrow> exc + outcome" where
  "attempt_request ev req =
     try_except
       (case requests_get ev req of Inl e \<Rightarrow> Inl e | Inr r \<Rightarrow> Inr (classify_response r))
       [(Timeout, \<lambda>e. (False, ''Connection timeout: Request took too long to respond'')),
        (ConnectionError, connection_error_outcome ev),
        (TooManyRedirects, \<lambda>e. (False, ''Too many redirects'')),
        (RequestException, \<lambda>e. (False, ''Request error: '' @ exc_str e)),
        (Exception, \<lambda>e. (False, ''Unexpected error: '' @ exc_str e))]"

text \<open>Lines 35 to 37: the headers of the request.\<close>

definition prepare_headers :: "bool \<Rightarrow> (string \<times> string) list" where
  "prepare_headers use_browser_agent =
     (if use_browser_agent then [(''User-Agent'', browser_agent)] else [])"

text \<open>Line 41: the arguments of the call of \<open>requests.get\<close>.\<close>

definition get_request :: "string \<Rightarrow> int \<Rightarrow> bool \<Rightarrow> request" where
  "get_request url timeout use_browser_agent =
     \<lparr>req_url = url, req_timeout = timeout, allow_redirects = True,
      headers = prepare_headers use_browser_agent\<rparr>"

text \<open>
  The whole function. The result is a pair: what the caller gets (\<open>Inr\<close> the returned
  tuple, \<open>Inl\<close> an exception that propagates), and the list of the requests sent to the
  network during the call.
\<close>

definition check_url :: "env \<Rightarrow> string \<Rightarrow> int \<Rightarrow> bool \<Rightarrow> (exc + outcome) \<times> request list" where
  "check_url ev url timeout use_browser_agent =
     (case validate ev url of
        Inl e \<Rightarrow> (Inl e, [])
      | Inr (Some r) \<Rightarrow> (Inr r, [])
      | Inr None \<Rightarrow>
          (let req = get_request url timeout use_browser_agent
           in (attempt_request ev req, [req])))"

section \<open>The standard library's \<open>urlparse\<close>\<close>

text \<open>
  The parser of the standard library, from \<open>urllib/parse.py\<close> of CPython 3.11, for a
  \<open>str\<close> argument with the default \<open>scheme=''\<close> and \<open>allow_fragments=True\<close>, which is
  how line 24 calls it. Two of its checks are parameters: \<open>_check_bracketed_host\<close>,
  which calls \<open>ipaddress\<close> and \<open>re\<close>, and the part of \<open>_checknetloc\<close> that normalises a
  netloc with non-ASCII characters. Each returns (\<open>None\<close>) or raises (\<open>Some\<close>).
\<close>

record url_checks =
  check_bracketed_host :: "string \<Rightarrow> exc option"
  checknetloc_nfkc :: "string \<Rightarrow> exc option"

text \<open>\<open>s.find(c)\<close>: the index of the first \<open>c\<close> in \<open>s\<close>, or \<open>-1\<close>.\<close>

fun str_find :: "char \<Rightarrow> string \<Rightarrow> int" where
  "str_find c [] = - 1"
| "str_find c (x # xs) =
     (if x = c then 0 else (let i = str_find c xs in if i < 0 then - 1 else i + 1))"

text \<open>\<open>s.find(c, start)\<close> and \<open>s.rfind(c)\<close>.\<close>

definition str_find_from :: "char \<Rightarrow> string \<Rightarrow> nat \<Rightarrow> int" where
  "str_find_from c s start =
     (let i = str_find c (drop start s) in if i < 0 then - 1 else i + int start)"

definition str_rfind :: "char \<Rightarrow> string \<Rightarrow> int" where
  "str_rfind c s =
     (let i = str_find c (rev s) in if i < 0 then - 1 else int (length s) - 1 - i)"

text \<open>\<open>s.partition(c)\<close>: the text before the first \<open>c\<close>, \<open>c\<close>, and the text after it.\<close>

definition str_partition :: "char \<Rightarrow> string \<Rightarrow> string \<times> string \<times> string" where
  "str_partition c s =
     (let i = str_find c s in
      if i < 0 then (s, [], []) else (take (nat i) s, [c], drop (nat (i + 1)) s))"

definition scheme_chars :: string where
  "scheme_chars =
     ''abcdefghijklmnopqrstuvwxyz'' @ ''ABCDEFGHIJKLMNOPQRSTUVWXYZ'' @ ''0123456789'' @ ''+-.''"

definition uses_params :: "string list" where
  "uses_params =
     ['''', ''ftp'', ''hdl'', ''prospero'', ''http'', ''imap'', ''https'', ''shttp'', ''rtsp'',
      ''rtsps'', ''rtspu'', ''sip'', ''sips'', ''mms'', ''sftp'', ''tel'']"

text \<open>The characters from \<open>\x00\<close> to the space, and tab, carriage return and newline.\<close>

definition WHATWG_C0_CONTROL_OR_SPACE :: string where
  "WHATWG_C0_CONTROL_OR_SPACE =
     [CHR 0x00, CHR 0x01, CHR 0x02, CHR 0x03, CHR 0x04, CHR 0x05, CHR 0x06, CHR 0x07,
      CHR 0x08, CHR 0x09, CHR 0x0A, CHR 0x0B, CHR 0x0C, CHR 0x0D, CHR 0x0E, CHR 0x0F,
      CHR 0x10, CHR 0x11, CHR 0x12, CHR 0x13, CHR 0x14, CHR 0x15, CHR 0x16, CHR 0x17,
      CHR 0x18, CHR 0x19, CHR 0x1A, CHR 0x1B, CHR 0x1C, CHR 0x1D, CHR 0x1E, CHR 0x1F,
      CHR 0x20]"

definition UNSAFE_URL_BYTES_TO_REMOVE :: string where
  "UNSAFE_URL_BYTES_TO_REMOVE = [CHR 0x09, CHR 0x0D, CHR 0x0A]"

text \<open>\<open>c.isascii() and c.isalpha()\<close>, and \<open>s.isascii()\<close>.\<close>

definition is_ascii_alpha :: "char \<Rightarrow> bool" where
  "is_ascii_alpha c =
     (c \<in> set (''abcdefghijklmnopqrstuvwxyz'' @ ''ABCDEFGHIJKLMNOPQRSTUVWXYZ''))"

definition isascii :: "string \<Rightarrow> bool" where
  "isascii s = list_all (\<lambda>c. (of_char c :: nat) < 128) s"

text \<open>
  Lines 486 to 492 of \<open>urlsplit\<close>: the scheme and the rest of the URL. The loop with its
  \<open>else\<close> takes the scheme when every character before the colon is in \<open>scheme_chars\<close>;
  these are ASCII, so \<open>lower()\<close> is \<open>ascii_lower\<close> on them.
\<close>

definition split_scheme :: "string \<Rightarrow> string \<times> string" where
  "split_scheme url =
     (let i = str_find CHR '':'' url in
      if i > 0 \<and> (case url of [] \<Rightarrow> False | c # cs \<Rightarrow> is_ascii_alpha c)
         \<and> list_all (\<lambda>c. c \<in> set scheme_chars) (take (nat i) url)
      then (ascii_lower (take (nat i) url), drop (nat (i + 1)) url)
      else ([], url))"

text \<open>\<open>_splitnetloc(url, start)\<close>: the netloc ends at the first of \<open>/\<close>, \<open>?\<close> and \<open>#\<close>.\<close>

definition splitnetloc :: "string \<Rightarrow> nat \<Rightarrow> string \<times> string" where
  "splitnetloc url start =
     (let delim =
            fold (\<lambda>c delim.
                    let wdelim = str_find_from c url start in
                    if wdelim \<ge> 0 then min delim wdelim else delim)
              ''/?#'' (int (length url))
      in (drop start (take (nat delim) url), drop (nat delim) url))"

text \<open>Lines 493 to 500 of \<open>urlsplit\<close>: the netloc and the rest of the URL.\<close>

definition split_netloc :: "url_checks \<Rightarrow> string \<Rightarrow> exc + string \<times> string" where
  "split_netloc ck url =
     (if take 2 url = ''//'' then
        (case splitnetloc url 2 of
           (netloc', rest) \<Rightarrow>
             if (CHR ''['' \<in> set netloc' \<and> CHR '']'' \<notin> set netloc')
                \<or> (CHR '']'' \<in> set netloc' \<and> CHR ''['' \<notin> set netloc') then
               Inl \<lparr>exc_class = ValueError, exc_str = ''Invalid IPv6 URL''\<rparr>
             else if CHR ''['' \<in> set netloc' \<and> CHR '']'' \<in> set netloc' then
               (let bracketed_host =
                      fst (str_partition CHR '']''
                             (snd (snd (str_partition CHR ''['' netloc'))))
                in case check_bracketed_host ck bracketed_host of
                     Some e \<Rightarrow> Inl e
                   | None \<Rightarrow> Inr (netloc', rest))
             else Inr (netloc', rest))
      else Inr ([], url))"

text \<open>\<open>_checknetloc(netloc)\<close>: nothing to check for an empty or an ASCII netloc.\<close>

definition checknetloc :: "url_checks \<Rightarrow> string \<Rightarrow> exc option" where
  "checknetloc ck netloc' =
     (if netloc' = [] \<or> isascii netloc' then None else checknetloc_nfkc ck netloc')"

text \<open>
  \<open>urlsplit(url)\<close>: the five components, or the exception raised. \<open>url.split(c, 1)\<close> of
  a string that contains \<open>c\<close> gives the first and the last part of \<open>url.partition(c)\<close>.
\<close>

definition urlsplit ::
  "url_checks \<Rightarrow> string \<Rightarrow> exc + string \<times> string \<times> string \<times> string \<times> string" where
  "urlsplit ck url0 =
     (let url1 = dropWhile (\<lambda>c. c \<in> set WHATWG_C0_CONTROL_OR_SPACE) url0;
          url2 = fold (\<lambda>b u. filter (\<lambda>c. c \<noteq> b) u) UNSAFE_URL_BYTES_TO_REMOVE url1
      in case split_scheme url2 of
           (scheme', url3) \<Rightarrow>
             (case split_netloc ck url3 of
                Inl e \<Rightarrow> Inl e
              | Inr (netloc', url4) \<Rightarrow>
                  (let (url5, fragment') =
                         (if CHR ''#'' \<in> set url4 then
                            (fst (str_partition CHR ''#'' url4),
                             snd (snd (str_partition CHR ''#'' url4)))
                          else (url4, []));
                       (url6, query') =
                         (if CHR ''?'' \<in> set url5 then
                            (fst (str_partition CHR ''?'' url5),
                             snd (snd (str_partition CHR ''?'' url5)))
                          else (url5, []))
                   in case checknetloc ck netloc' of
                        Some e \<Rightarrow> Inl e
                      | None \<Rightarrow> Inr (scheme', netloc', url6, query', fragment'))))"

text \<open>
  \<open>_splitparams(url)\<close>, which \<open>urlparse\<close> calls only on a URL that contains \<open>;\<close>, so the
  index in the second branch is not negative.
\<close>

definition splitparams :: "string \<Rightarrow> string \<times> string" where
  "splitparams url =
     (if CHR ''/'' \<in> set url then
        (let i = str_find_from CHR '';'' url (nat (str_rfind CHR ''/'' url)) in
         if i < 0 then (url, []) else (take (nat i) url, drop (nat (i + 1)) url))
      else
        (let i = str_find CHR '';'' url in (take (nat i) url, drop (nat (i + 1)) url)))"

text \<open>\<open>urlparse(url)\<close>: the six components, or the exception raised.\<close>

definition urllib_urlparse :: "url_checks \<Rightarrow> string \<Rightarrow> exc + parse_result" where
  "urllib_urlparse ck url =
     (case urlsplit ck url of
        Inl e \<Rightarrow> Inl e
      | Inr (scheme', netloc', url1, query', fragment') \<Rightarrow>
          (let (url2, params') =
                 (if scheme' \<in> set uses_params \<and> CHR '';'' \<in> set url1 then splitparams url1
                  else (url1, []))
           in Inr \<lparr>scheme = scheme', netloc = netloc', path = url2, params = params',
                   query = query', fragment = fragment'\<rparr>))"

section \<open>Sample environments\<close>

text \<open>
  Concrete parsers and networks, used to run \<open>check_url\<close> on concrete inputs: a
  parser that returns \<open>p\<close> and a network that answers \<open>g\<close>, whatever they are given.
  The messages of the sample runs are ASCII, where \<open>str.lower()\<close> is \<open>ascii_lower\<close>.
\<close>

definition fixed_env :: "exc + parse_result \<Rightarrow> exc + response \<Rightarrow> env" where
  "fixed_env p g =
     \<lparr>urlparse = (\<lambda>u. p), requests_get = (\<lambda>q. g), str_lower = ascii_lower\<rparr>"

definition parsed_of :: "string \<Rightarrow> string \<Rightarrow> parse_result" where
  "parsed_of s n =
     \<lparr>scheme = s, netloc = n, path = [], params = [], query = [], fragment = []\<rparr>"

definition raised :: "exc_class \<Rightarrow> string \<Rightarrow> exc" where
  "raised k msg = \<lparr>exc_class = k, exc_str = msg\<rparr>"

text \<open>Checks of the parser that accept every host.\<close>

definition no_checks :: url_checks where
  "no_checks = \<lparr>check_bracketed_host = (\<lambda>s. None), checknetloc_nfkc = (\<lambda>s. None)\<rparr>"

definition ok_response :: response where
  "ok_response = \<lparr>status_code = 200, response_url = ''http://example.com/'', history = []\<rparr>"

section \<open>The two \<open>try\<close> blocks\<close>

lemma isinstance_Exception: "isinstance e Exception"
  by (cases "exc_class e") (simp_all add: isinstance_def)

lemma validate_raise:
  "urlparse ev url = Inl e \<Longrightarrow>
     validate ev url = Inr (Some (False, ''Invalid URL format: '' @ exc_str e))"
  by (simp add: validate_def validate_body_def try_except_def isinstance_Exception)

lemma validate_parsed:
  "urlparse ev url = Inr p \<Longrightarrow>
     validate ev url =
       Inr (if scheme p = [] then
              Some (False, ''Invalid URL: Missing protocol (http:// or https://)'')
            else if netloc p = [] then Some (False, ''Invalid URL: Malformed URL format'')
            else if scheme p \<notin> set [''http'', ''https''] then
              Some (False,
                ''Invalid URL: Unsupported protocol '' @ [CHR 0x27] @ scheme p @ [CHR 0x27])
            else None)"
  by (simp add: validate_def validate_body_def try_except_def)

lemma validate_returns: "\<exists>r. validate ev url = Inr r"
proof (cases "urlparse ev url")
  case (Inl e)
  then show ?thesis by (simp add: validate_raise)
next
  case (Inr p)
  then show ?thesis by (simp add: validate_parsed)
qed

lemma validate_passes_iff:
  "validate ev url = Inr None \<longleftrightarrow>
     (\<exists>p. urlparse ev url = Inr p \<and> netloc p \<noteq> [] \<and> scheme p \<in> set [''http'', ''https''])"
proof (cases "urlparse ev url")
  case (Inl e)
  then show ?thesis by (simp add: validate_raise)
next
  case (Inr p)
  then show ?thesis by (auto simp add: validate_parsed)
qed

lemma attempt_request_response:
  "requests_get ev req = Inr r \<Longrightarrow> attempt_request ev req = Inr (classify_response r)"
  by (simp add: attempt_request_def try_except_def)

lemma attempt_request_raise:
  "requests_get ev req = Inl e \<Longrightarrow>
     attempt_request ev req =
       Inr (if isinstance e Timeout then
              (False, ''Connection timeout: Request took too long to respond'')
            else if isinstance e ConnectionError then connection_error_outcome ev e
            else if isinstance e TooManyRedirects then (False, ''Too many redirects'')
            else if isinstance e RequestException then (False, ''Request error: '' @ exc_str e)
            else (False, ''Unexpected error: '' @ exc_str e))"
  by (simp add: attempt_request_def try_except_def isinstance_Exception)

lemma check_url_rejected:
  "validate ev url = Inr (Some r) \<Longrightarrow> check_url ev url timeout uba = (Inr r, [])"
  by (simp add: check_url_def)

lemma check_url_requests:
  "validate ev url = Inr None \<Longrightarrow>
     check_url ev url timeout uba =
       (attempt_request ev (get_request url timeout uba), [get_request url timeout uba])"
  by (simp add: check_url_def Let_def)

lemma connection_error_outcome_fails: "fst (connection_error_outcome ev e) = False"
  by (simp add: connection_error_outcome_def Let_def)

lemma connection_error_outcome_text: "snd (connection_error_outcome ev e) \<noteq> []"
  by (simp add: connection_error_outcome_def Let_def)

lemma classify_response_text: "snd (classify_response r) \<noteq> []"
  by (simp add: classify_response_def)

section \<open>The string operations\<close>

lemma startswith_iff: "startswith s p \<longleftrightarrow> (\<exists>t. s = p @ t)"
  by (induction s p rule: startswith.induct) auto

lemma str_in_iff: "str_in pat s \<longleftrightarrow> (\<exists>pre post. s = pre @ pat @ post)"
proof (induction s)
  case Nil
  then show ?case by auto
next
  case (Cons c cs)
  show ?case
  proof
    assume "str_in pat (c # cs)"
    then consider "startswith (c # cs) pat" | "str_in pat cs" by auto
    then show "\<exists>pre post. c # cs = pre @ pat @ post"
    proof cases
      case 1
      then obtain t where "c # cs = pat @ t" by (auto simp add: startswith_iff)
      then have "c # cs = [] @ pat @ t" by simp
      then show ?thesis by blast
    next
      case 2
      with Cons.IH obtain pre post where "cs = pre @ pat @ post" by blast
      then have "c # cs = (c # pre) @ pat @ post" by simp
      then show ?thesis by blast
    qed
  next
    assume "\<exists>pre post. c # cs = pre @ pat @ post"
    then obtain pre post where split: "c # cs = pre @ pat @ post" by blast
    show "str_in pat (c # cs)"
    proof (cases pre)
      case Nil
      with split have "startswith (c # cs) pat"
        by (auto simp add: startswith_iff)
      then show ?thesis by simp
    next
      case (Cons d ds)
      with split have "cs = ds @ pat @ post" by simp
      with Cons.IH have "str_in pat cs" by blast
      then show ?thesis by simp
    qed
  qed
qed

lemma str_in_ascii_lower: "str_in pat s \<Longrightarrow> str_in (ascii_lower pat) (ascii_lower s)"
proof -
  assume "str_in pat s"
  then obtain pre post where "s = pre @ pat @ post"
    by (auto simp add: str_in_iff)
  then have "ascii_lower s = ascii_lower pre @ ascii_lower pat @ ascii_lower post"
    by (simp add: ascii_lower_def)
  then show ?thesis
    unfolding str_in_iff by blast
qed

section \<open>Syntax validation\<close>

text \<open>
  C4. Validation comes before any network I/O and its checks are ordered, the first one
  violated deciding the result: a parser that raises gives
  \<open>(False, "Invalid URL format: <detail>")\<close>; an empty scheme gives the missing-protocol
  text, whatever the host; an empty host with a scheme gives the malformed-URL text,
  whatever the scheme; a scheme other than http and https, with a host, gives the
  unsupported-protocol text with the scheme in quotes. In all four no request is sent;
  a request is sent only when all four checks pass.
\<close>

theorem validation_checks_in_order:
  "(urlparse ev url = Inl e \<longrightarrow>
      check_url ev url timeout uba =
        (Inr (False, ''Invalid URL format: '' @ exc_str e), []))
   \<and> (urlparse ev url = Inr p \<and> scheme p = [] \<longrightarrow>
      check_url ev url timeout uba =
        (Inr (False, ''Invalid URL: Missing protocol (http:// or https://)''), []))
   \<and> (urlparse ev url = Inr p \<and> scheme p \<noteq> [] \<and> netloc p = [] \<longrightarrow>
      check_url ev url timeout uba = (Inr (False, ''Invalid URL: Malformed URL format''), []))
   \<and> (urlparse ev url = Inr p \<and> scheme p \<noteq> [] \<and> netloc p \<noteq> []
        \<and> scheme p \<noteq> ''http'' \<and> scheme p \<noteq> ''https'' \<longrightarrow>
      check_url ev url timeout uba =
        (Inr (False, ''Invalid URL: Unsupported protocol '' @ [CHR 0x27] @ scheme p @ [CHR 0x27]),
         []))
   \<and> (urlparse ev url = Inr p \<and> netloc p \<noteq> []
        \<and> (scheme p = ''http'' \<or> scheme p = ''https'') \<longrightarrow>
      snd (check_url ev url timeout uba) = [get_request url timeout uba])"
proof -
  have raise: "urlparse ev url = Inl e \<Longrightarrow>
      check_url ev url timeout uba = (Inr (False, ''Invalid URL format: '' @ exc_str e), [])"
    by (simp add: validate_raise check_url_rejected)
  have no_scheme: "urlparse ev url = Inr p \<Longrightarrow> scheme p = [] \<Longrightarrow>
      check_url ev url timeout uba =
        (Inr (False, ''Invalid URL: Missing protocol (http:// or https://)''), [])"
    by (simp add: validate_parsed check_url_rejected)
  have no_host: "urlparse ev url = Inr p \<Longrightarrow> scheme p \<noteq> [] \<Longrightarrow> netloc p = [] \<Longrightarrow>
      check_url ev url timeout uba = (Inr (False, ''Invalid URL: Malformed URL format''), [])"
    by (simp add: validate_parsed check_url_rejected)
  have other_scheme: "urlparse ev url = Inr p \<Longrightarrow> scheme p \<noteq> [] \<Longrightarrow> netloc p \<noteq> [] \<Longrightarrow>
      scheme p \<noteq> ''http'' \<Longrightarrow> scheme p \<noteq> ''https'' \<Longrightarrow>
      check_url ev url timeout uba =
        (Inr (False, ''Invalid URL: Unsupported protocol '' @ [CHR 0x27] @ scheme p @ [CHR 0x27]),
         [])"
    by (simp add: validate_parsed check_url_rejected)
  have passes: "urlparse ev url = Inr p \<Longrightarrow> netloc p \<noteq> [] \<Longrightarrow>
      scheme p = ''http'' \<or> scheme p = ''https'' \<Longrightarrow>
      snd (check_url ev url timeout uba) = [get_request url timeout uba]"
  proof -
    assume "urlparse ev url = Inr p" "netloc p \<noteq> []" "scheme p = ''http'' \<or> scheme p = ''https''"
    then have "validate ev url = Inr None"
      by (auto simp add: validate_passes_iff)
    then show ?thesis by (simp add: check_url_requests)
  qed
  from raise no_scheme no_host other_scheme passes show ?thesis by blast
qed

theorem validation_checks_in_order_witness:
  "check_url (fixed_env (Inl (raised ValueError ''Invalid IPv6 URL'')) (Inr ok_response))
       ''http://[::1/'' 5 False
     = (Inr (False, ''Invalid URL format: Invalid IPv6 URL''), [])
   \<and> check_url (fixed_env (Inr (parsed_of '''' '''')) (Inr ok_response)) ''www.google.com'' 5 False
     = (Inr (False, ''Invalid URL: Missing protocol (http:// or https://)''), [])
   \<and> check_url (fixed_env (Inr (parsed_of ''ftp'' '''')) (Inr ok_response)) ''ftp:/files'' 5 False
     = (Inr (False, ''Invalid URL: Malformed URL format''), [])
   \<and> check_url (fixed_env (Inr (parsed_of ''ftp'' ''example.com'')) (Inr ok_response))
       ''ftp://example.com'' 5 False
     = (Inr (False, ''Invalid URL: Unsupported protocol '' @ [CHR 0x27] @ ''ftp'' @ [CHR 0x27]), [])
   \<and> snd (check_url (fixed_env (Inr (parsed_of ''https'' ''example.com'')) (Inr ok_response))
       ''https://example.com'' 5 False)
     = [get_request ''https://example.com'' 5 False]"
  using
    validation_checks_in_order [of "fixed_env (Inl (raised ValueError ''Invalid IPv6 URL'')) (Inr ok_response)"
      "''http://[::1/''" "raised ValueError ''Invalid IPv6 URL''" 5 False "parsed_of '''' ''''"]
    validation_checks_in_order [of "fixed_env (Inr (parsed_of '''' '''')) (Inr ok_response)"
      "''www.google.com''" "raised ValueError ''''" 5 False "parsed_of '''' ''''"]
    validation_checks_in_order [of "fixed_env (Inr (parsed_of ''ftp'' '''')) (Inr ok_response)"
      "''ftp:/files''" "raised ValueError ''''" 5 False "parsed_of ''ftp'' ''''"]
    validation_checks_in_order [of "fixed_env (Inr (parsed_of ''ftp'' ''example.com'')) (Inr ok_response)"
      "''ftp://example.com''" "raised ValueError ''''" 5 False "parsed_of ''ftp'' ''example.com''"]
    validation_checks_in_order [of "fixed_env (Inr (parsed_of ''https'' ''example.com'')) (Inr ok_response)"
      "''https://example.com''" "raised ValueError ''''" 5 False "parsed_of ''https'' ''example.com''"]
  by (simp add: fixed_env_def parsed_of_def raised_def)

text \<open>The parser on the empty string and on three sample URLs.\<close>

lemma urllib_urlparse_empty:
  "urllib_urlparse ck '''' =
     Inr \<lparr>scheme = [], netloc = [], path = [], params = [], query = [], fragment = []\<rparr>"
  by (simp add: urllib_urlparse_def urlsplit_def split_scheme_def split_netloc_def
      checknetloc_def UNSAFE_URL_BYTES_TO_REMOVE_def)

lemma urllib_urlparse_samples:
  "urllib_urlparse no_checks ''http://example.com/a/b;p?q=1#frag'' =
     Inr \<lparr>scheme = ''http'', netloc = ''example.com'', path = ''/a/b'', params = ''p'',
          query = ''q=1'', fragment = ''frag''\<rparr>
   \<and> urllib_urlparse no_checks ''www.google.com'' =
     Inr \<lparr>scheme = [], netloc = [], path = ''www.google.com'', params = [], query = [],
          fragment = []\<rparr>
   \<and> urllib_urlparse no_checks ''http://[::1/x'' =
     Inl \<lparr>exc_class = ValueError, exc_str = ''Invalid IPv6 URL''\<rparr>"
  by code_simp

text \<open>
  C9. The empty string. The standard library's parser does not raise on it and returns
  a result whose fields are all empty, so \<open>check_url\<close> returns the missing-protocol
  result, not the parse-failure one, and sends no request; this for every network,
  timeout and flag.
\<close>

theorem empty_url_missing_protocol:
  "urllib_urlparse ck '''' =
     Inr \<lparr>scheme = [], netloc = [], path = [], params = [], query = [], fragment = []\<rparr>
   \<and> check_url \<lparr>urlparse = urllib_urlparse ck, requests_get = g, str_lower = l\<rparr>
         '''' timeout uba =
       (Inr (False, ''Invalid URL: Missing protocol (http:// or https://)''), [])"
proof -
  let ?ev = "\<lparr>urlparse = urllib_urlparse ck, requests_get = g, str_lower = l\<rparr>"
  let ?p = "\<lparr>scheme = [], netloc = [], path = [], params = [], query = [], fragment = []\<rparr>"
  have parsed: "urlparse ?ev '''' = Inr ?p"
    by (simp add: urllib_urlparse_empty)
  have "validate ?ev '''' =
      Inr (Some (False, ''Invalid URL: Missing protocol (http:// or https://)''))"
    using validate_parsed [OF parsed] by simp
  then show ?thesis
    by (simp add: check_url_rejected urllib_urlparse_empty)
qed

theorem empty_url_missing_protocol_witness:
  "urllib_urlparse no_checks '''' =
     Inr \<lparr>scheme = [], netloc = [], path = [], params = [], query = [], fragment = []\<rparr>
   \<and> check_url
         \<lparr>urlparse = urllib_urlparse no_checks, requests_get = (\<lambda>q. Inr ok_response),
          str_lower = ascii_lower\<rparr>
         '''' 5 False =
       (Inr (False, ''Invalid URL: Missing protocol (http:// or https://)''), [])"
  by (rule empty_url_missing_protocol)

section \<open>Classification of a response\<close>

lemma str_nat_three_digits:
  "100 \<le> n \<Longrightarrow> n < 1000 \<Longrightarrow>
     str_nat n = [digit_char (n div 100), digit_char (n div 10 mod 10), digit_char (n mod 10)]"
proof -
  assume lo: "100 \<le> n" and hi: "n < 1000"
  have tens: "\<not> n div 10 < 10" and hundreds: "n div 10 div 10 < 10"
    using lo hi by simp_all
  have "str_nat n = str_nat (n div 10) @ [digit_char (n mod 10)]"
    using lo by (simp add: str_nat.simps [of n])
  also have "str_nat (n div 10) = str_nat (n div 10 div 10) @ [digit_char (n div 10 mod 10)]"
    using tens by (simp add: str_nat.simps [of "n div 10"])
  also have "str_nat (n div 10 div 10) = [digit_char (n div 10 div 10)]"
    using hundreds by (simp add: str_nat.simps [of "n div 10 div 10"])
  also have "n div 10 div 10 = n div 100"
    by (simp add: div_mult2_eq [symmetric])
  finally show ?thesis by simp
qed

lemma str_int_status: "str_int 404 = ''404'' \<and> str_int 500 = ''500'' \<and> str_int (- 7) = ''-7''"
  by (simp add: str_int_def str_nat_three_digits digit_char_def str_nat.simps [of 7])

text \<open>
  C3. When the response was reached through one or more redirects (its history is not
  empty), the result is \<open>(True, "Redirects to <final URL>")\<close>, whatever the final status
  code is: the history is looked at before the status code.
\<close>

theorem redirect_reported_as_success:
  "validate ev url = Inr None \<Longrightarrow>
   requests_get ev (get_request url timeout uba) = Inr r \<Longrightarrow>
   history r \<noteq> [] \<Longrightarrow>
     fst (check_url ev url timeout uba) = Inr (True, ''Redirects to '' @ response_url r)"
  by (simp add: check_url_requests attempt_request_response classify_response_def)

theorem redirect_reported_as_success_witness:
  "fst (check_url
         (fixed_env (Inr (parsed_of ''http'' ''example.com''))
            (Inr \<lparr>status_code = 404, response_url = ''https://example.com/gone'',
                  history = [(301, ''http://example.com/old'')]\<rparr>))
         ''http://example.com/old'' 5 False)
     = Inr (True, ''Redirects to https://example.com/gone'')
   \<and> fst (check_url
         (fixed_env (Inr (parsed_of ''http'' ''example.com''))
            (Inr \<lparr>status_code = 503, response_url = ''https://example.com/down'',
                  history = [(302, ''http://example.com/a''), (302, ''http://example.com/b'')]\<rparr>))
         ''http://example.com/a'' 5 True)
     = Inr (True, ''Redirects to https://example.com/down'')"
  using
    redirect_reported_as_success [of
      "fixed_env (Inr (parsed_of ''http'' ''example.com''))
         (Inr \<lparr>status_code = 404, response_url = ''https://example.com/gone'',
               history = [(301, ''http://example.com/old'')]\<rparr>)"
      "''http://example.com/old''" 5 False
      "\<lparr>status_code = 404, response_url = ''https://example.com/gone'',
        history = [(301, ''http://example.com/old'')]\<rparr>"]
    redirect_reported_as_success [of
      "fixed_env (Inr (parsed_of ''http'' ''example.com''))
         (Inr \<lparr>status_code = 503, response_url = ''https://example.com/down'',
               history = [(302, ''http://example.com/a''), (302, ''http://example.com/b'')]\<rparr>)"
      "''http://example.com/a''" 5 True
      "\<lparr>status_code = 503, response_url = ''https://example.com/down'',
        history = [(302, ''http://example.com/a''), (302, ''http://example.com/b'')]\<rparr>"]
  by (simp add: validate_passes_iff fixed_env_def parsed_of_def)

text \<open>
  C5. When the response was obtained without a redirect (its history is empty): a status
  code of 404 gives \<open>(False, "404 Not Found")\<close>; otherwise a status code from 400 up to
  599 gives \<open>(False, "HTTP <code> error")\<close>, the code in decimal; otherwise the result is
  \<open>(True, "URL is accessible")\<close>.
\<close>

theorem status_code_classification:
  "validate ev url = Inr None \<Longrightarrow>
   requests_get ev (get_request url timeout uba) = Inr r \<Longrightarrow>
   history r = [] \<Longrightarrow>
     fst (check_url ev url timeout uba) =
       Inr (if status_code r = 404 then (False, ''404 Not Found'')
            else if 400 \<le> status_code r \<and> status_code r < 600 then
              (False,
               ''HTTP '' @
               [digit_char (nat (status_code r) div 100),
                digit_char (nat (status_code r) div 10 mod 10),
                digit_char (nat (status_code r) mod 10)] @
               '' error'')
            else (True, ''URL is accessible''))"
proof -
  assume passes: "validate ev url = Inr None"
    and got: "requests_get ev (get_request url timeout uba) = Inr r"
    and direct: "history r = []"
  have result: "fst (check_url ev url timeout uba) = Inr (classify_response r)"
    using passes got by (simp add: check_url_requests attempt_request_response)
  have digits: "str_int (status_code r) =
      [digit_char (nat (status_code r) div 100),
       digit_char (nat (status_code r) div 10 mod 10),
       digit_char (nat (status_code r) mod 10)]"
    if "400 \<le> status_code r" "status_code r < 600"
    using that by (simp add: str_int_def str_nat_three_digits)
  show ?thesis
    using direct digits by (simp add: result classify_response_def)
qed

theorem status_code_classification_witness:
  "fst (check_url
         (fixed_env (Inr (parsed_of ''https'' ''www.google.com''))
            (Inr \<lparr>status_code = 404, response_url = ''https://www.google.com/x'', history = []\<rparr>))
         ''https://www.google.com/x'' 5 False)
     = Inr (False, ''404 Not Found'')
   \<and> fst (check_url
         (fixed_env (Inr (parsed_of ''https'' ''www.equinix.com''))
            (Inr \<lparr>status_code = 403, response_url = ''https://www.equinix.com/'', history = []\<rparr>))
         ''https://www.equinix.com'' 5 False)
     = Inr (False, ''HTTP 403 error'')
   \<and> fst (check_url
         (fixed_env (Inr (parsed_of ''https'' ''example.com''))
            (Inr \<lparr>status_code = 500, response_url = ''https://example.com/'', history = []\<rparr>))
         ''https://example.com'' 5 False)
     = Inr (False, ''HTTP 500 error'')
   \<and> fst (check_url
         (fixed_env (Inr (parsed_of ''http'' ''example.com'')) (Inr ok_response))
         ''http://example.com/'' 5 False)
     = Inr (True, ''URL is accessible'')"
  using
    status_code_classification [of
      "fixed_env (Inr (parsed_of ''https'' ''www.google.com''))
         (Inr \<lparr>status_code = 404, response_url = ''https://www.google.com/x'', history = []\<rparr>)"
      "''https://www.google.com/x''" 5 False
      "\<lparr>status_code = 404, response_url = ''https://www.google.com/x'', history = []\<rparr>"]
    status_code_classification [of
      "fixed_env (Inr (parsed_of ''https'' ''www.equinix.com''))
         (Inr \<lparr>status_code = 403, response_url = ''https://www.equinix.com/'', history = []\<rparr>)"
      "''https://www.equinix.com''" 5 False
      "\<lparr>status_code = 403, response_url = ''https://www.equinix.com/'', history = []\<rparr>"]
    status_code_classification [of
      "fixed_env (Inr (parsed_of ''https'' ''example.com''))
         (Inr \<lparr>status_code = 500, response_url = ''https://example.com/'', history = []\<rparr>)"
      "''https://example.com''" 5 False
      "\<lparr>status_code = 500, response_url = ''https://example.com/'', history = []\<rparr>"]
    status_code_classification [of
      "fixed_env (Inr (parsed_of ''http'' ''example.com'')) (Inr ok_response)"
      "''http://example.com/''" 5 False ok_response]
  by (simp add: validate_passes_iff fixed_env_def parsed_of_def ok_response_def digit_char_def)

section \<open>The success flag\<close>

lemma check_url_success_iff:
  "fst (check_url ev url timeout uba) = Inr (True, s) \<longleftrightarrow>
     validate ev url = Inr None
     \<and> (\<exists>r. requests_get ev (get_request url timeout uba) = Inr r
            \<and> classify_response r = (True, s))"
proof (cases "validate ev url")
  case (Inl e)
  with validate_returns [of ev url] show ?thesis by simp
next
  case (Inr v)
  show ?thesis
  proof (cases v)
    case None
    with Inr have passes: "validate ev url = Inr None" by simp
    show ?thesis
    proof (cases "requests_get ev (get_request url timeout uba)")
      case (Inl e)
      then show ?thesis
        using connection_error_outcome_fails [of ev e]
        by (auto simp add: passes check_url_requests attempt_request_raise)
    next
      case (Inr r)
      then show ?thesis
        by (simp add: passes check_url_requests attempt_request_response)
    qed
  next
    case (Some rejected)
    with Inr have "validate ev url = Inr (Some rejected)" by simp
    moreover from this have "fst rejected = False"
      by (cases "urlparse ev url")
         (auto simp add: validate_raise validate_parsed split: if_splits)
    ultimately show ?thesis
      by (cases rejected) (simp add: check_url_rejected)
  qed
qed

text \<open>
  C2, as the code has it. The success flag is true exactly when validation passed, the
  request returned a response, and either a redirect was followed (the history is not
  empty) or the status code of the response lies outside 400 to 599. So a response that
  was not redirected and whose status code is, say, 304 or 100 is a success as well.
\<close>

theorem success_flag_characterised:
  "(\<exists>s. fst (check_url ev url timeout uba) = Inr (True, s)) \<longleftrightarrow>
     validate ev url = Inr None
     \<and> (\<exists>r. requests_get ev (get_request url timeout uba) = Inr r
            \<and> (history r \<noteq> [] \<or> status_code r < 400 \<or> 600 \<le> status_code r))"
proof -
  have "(\<exists>s. classify_response r = (True, s)) \<longleftrightarrow>
          (history r \<noteq> [] \<or> status_code r < 400 \<or> 600 \<le> status_code r)" for r
    by (auto simp add: classify_response_def)
  then show ?thesis
    unfolding check_url_success_iff by blast
qed

theorem success_flag_characterised_witness:
  "(\<exists>s. fst (check_url (fixed_env (Inr (parsed_of ''http'' ''example.com'')) (Inr ok_response))
              ''http://example.com/'' 5 False) = Inr (True, s))
   \<and> \<not> (\<exists>s. fst (check_url
              (fixed_env (Inr (parsed_of ''http'' ''example.com''))
                 (Inr \<lparr>status_code = 500, response_url = ''http://example.com/'', history = []\<rparr>))
              ''http://example.com/'' 5 False) = Inr (True, s))"
  using
    success_flag_characterised [of
      "fixed_env (Inr (parsed_of ''http'' ''example.com'')) (Inr ok_response)"
      "''http://example.com/''" 5 False]
    success_flag_characterised [of
      "fixed_env (Inr (parsed_of ''http'' ''example.com''))
         (Inr \<lparr>status_code = 500, response_url = ''http://example.com/'', history = []\<rparr>)"
      "''http://example.com/''" 5 False]
  by (simp add: validate_passes_iff fixed_env_def parsed_of_def ok_response_def)

text \<open>
  The claim as the specification words it fails: a response with status code 304 that
  was not redirected is neither a 2xx response nor the end of a redirect chain, and
  \<open>check_url\<close> reports it as a success.
\<close>

theorem success_only_2xx_or_redirect_counterexample:
  "requests_get
      (fixed_env (Inr (parsed_of ''http'' ''example.com''))
         (Inr \<lparr>status_code = 304, response_url = ''http://example.com/'', history = []\<rparr>))
      (get_request ''http://example.com/'' 5 False)
     = Inr \<lparr>status_code = 304, response_url = ''http://example.com/'', history = []\<rparr>
   \<and> \<not> (200 \<le> (304::int) \<and> (304::int) < 300)
   \<and> fst (check_url
         (fixed_env (Inr (parsed_of ''http'' ''example.com''))
            (Inr \<lparr>status_code = 304, response_url = ''http://example.com/'', history = []\<rparr>))
         ''http://example.com/'' 5 False)
     = Inr (True, ''URL is accessible'')"
  by (simp add: check_url_def validate_def validate_body_def try_except_def attempt_request_def
      classify_response_def fixed_env_def parsed_of_def Let_def)

text \<open>
  C10. Whenever the success flag is true, the explanation is \<open>"URL is accessible"\<close> or a
  text that begins with \<open>"Redirects to "\<close>.
\<close>

theorem success_explanations:
  "fst (check_url ev url timeout uba) = Inr (True, s) \<Longrightarrow>
     s = ''URL is accessible'' \<or> startswith s ''Redirects to ''"
proof -
  assume "fst (check_url ev url timeout uba) = Inr (True, s)"
  then obtain r where "classify_response r = (True, s)"
    unfolding check_url_success_iff by blast
  then show ?thesis
    by (auto simp add: classify_response_def split: if_splits)
qed

theorem success_explanations_witness:
  "fst (check_url (fixed_env (Inr (parsed_of ''http'' ''github.com''))
          (Inr \<lparr>status_code = 200, response_url = ''https://github.com/'',
                history = [(301, ''http://github.com/'')]\<rparr>))
        ''http://github.com'' 5 False)
     = Inr (True, ''Redirects to https://github.com/'')
   \<and> startswith ''Redirects to https://github.com/'' ''Redirects to ''"
proof -
  have run: "fst (check_url (fixed_env (Inr (parsed_of ''http'' ''github.com''))
          (Inr \<lparr>status_code = 200, response_url = ''https://github.com/'',
                history = [(301, ''http://github.com/'')]\<rparr>))
        ''http://github.com'' 5 False)
     = Inr (True, ''Redirects to https://github.com/'')"
    by (simp add: check_url_def validate_def validate_body_def try_except_def attempt_request_def
        classify_response_def fixed_env_def parsed_of_def Let_def)
  from success_explanations [OF run] run show ?thesis by simp
qed

section \<open>Exceptions of the request\<close>


lemma isinstance_ConnectionError_iff:
  "isinstance e ConnectionError \<longleftrightarrow>
     exc_class e \<in> {ConnectionError, ProxyError, SSLError, ConnectTimeout}"
  by (cases "exc_class e") (simp_all add: isinstance_def)

lemma isinstance_TooManyRedirects_iff:
  "isinstance e TooManyRedirects \<longleftrightarrow> exc_class e = TooManyRedirects"
  by (cases "exc_class e") (simp_all add: isinstance_def)

lemma attempt_request_raise_fails:
  "requests_get ev req = Inl e \<Longrightarrow> \<exists>s. attempt_request ev req = Inr (False, s) \<and> s \<noteq> []"
proof -
  assume raised: "requests_get ev req = Inl e"
  obtain s where s: "connection_error_outcome ev e = (False, s)" "s \<noteq> []"
    using connection_error_outcome_fails [of ev e] connection_error_outcome_text [of ev e]
    by (cases "connection_error_outcome ev e") simp
  show ?thesis
    using s by (simp add: attempt_request_raise [OF raised])
qed

lemma attempt_request_returns: "\<exists>b s. attempt_request ev req = Inr (b, s) \<and> s \<noteq> []"
proof (cases "requests_get ev req")
  case (Inl e)
  from attempt_request_raise_fails [OF this] show ?thesis by blast
next
  case (Inr r)
  obtain b s where "classify_response r = (b, s)"
    by (cases "classify_response r")
  with classify_response_text [of r] Inr show ?thesis
    by (simp add: attempt_request_response)
qed

lemma validate_rejects:
  "validate ev url = Inr (Some r) \<Longrightarrow> fst r = False \<and> snd r \<noteq> []"
  by (cases "urlparse ev url") (auto simp add: validate_raise validate_parsed split: if_splits)

text \<open>
  C6, as the code has it. A failure that reaches the code as an instance of
  \<open>requests.exceptions.ConnectionError\<close> and not of \<open>Timeout\<close> (the handler written
  before takes those) is classified by its message, lower-cased by \<open>str.lower()\<close>: one
  of the three name-resolution phrases gives the DNS result; otherwise
  \<open>"connection refused"\<close> gives the connection-refused result; otherwise the result is the
  general network connection error.
\<close>

theorem connection_error_classification:
  "validate ev url = Inr None \<Longrightarrow>
   requests_get ev (get_request url timeout uba) = Inl e \<Longrightarrow>
   isinstance e ConnectionError \<Longrightarrow> \<not> isinstance e Timeout \<Longrightarrow>
     fst (check_url ev url timeout uba) =
       Inr (if str_in ''name or service not known'' (str_lower ev (exc_str e))
               \<or> str_in ''nodename nor servname provided'' (str_lower ev (exc_str e))
               \<or> str_in ''getaddrinfo failed'' (str_lower ev (exc_str e)) then
              (False, ''DNS resolution failed: Unable to resolve domain name'')
            else if str_in ''connection refused'' (str_lower ev (exc_str e)) then
              (False, ''Connection refused: Server is not accepting connections'')
            else (False, ''Network connection error: Unable to connect to server''))"
  by (auto simp add: check_url_requests attempt_request_raise connection_error_outcome_def Let_def)

theorem connection_error_classification_witness:
  "fst (check_url
         (fixed_env (Inr (parsed_of ''https'' ''this-domain-does-not-exist-12345.com''))
            (Inl (raised ConnectionError
               ''Max retries exceeded (Caused by NameResolutionError: [Errno -2] Name or service not known)'')))
         ''https://this-domain-does-not-exist-12345.com'' 5 False)
     = Inr (False, ''DNS resolution failed: Unable to resolve domain name'')
   \<and> fst (check_url
         (fixed_env (Inr (parsed_of ''http'' ''localhost:9999''))
            (Inl (raised ConnectionError
               ''Failed to establish a new connection: [Errno 111] Connection refused'')))
         ''http://localhost:9999'' 5 False)
     = Inr (False, ''Connection refused: Server is not accepting connections'')
   \<and> fst (check_url
         (fixed_env (Inr (parsed_of ''https'' ''example.com''))
            (Inl (raised SSLError ''certificate verify failed'')))
         ''https://example.com'' 5 False)
     = Inr (False, ''Network connection error: Unable to connect to server'')"
  using
    connection_error_classification [of
      "fixed_env (Inr (parsed_of ''https'' ''this-domain-does-not-exist-12345.com''))
         (Inl (raised ConnectionError
            ''Max retries exceeded (Caused by NameResolutionError: [Errno -2] Name or service not known)''))"
      "''https://this-domain-does-not-exist-12345.com''" 5 False
      "raised ConnectionError
         ''Max retries exceeded (Caused by NameResolutionError: [Errno -2] Name or service not known)''"]
    connection_error_classification [of
      "fixed_env (Inr (parsed_of ''http'' ''localhost:9999''))
         (Inl (raised ConnectionError
            ''Failed to establish a new connection: [Errno 111] Connection refused''))"
      "''http://localhost:9999''" 5 False
      "raised ConnectionError
         ''Failed to establish a new connection: [Errno 111] Connection refused''"]
    connection_error_classification [of
      "fixed_env (Inr (parsed_of ''https'' ''example.com''))
         (Inl (raised SSLError ''certificate verify failed''))"
      "''https://example.com''" 5 False
      "raised SSLError ''certificate verify failed''"]
  by (simp add: validate_passes_iff fixed_env_def parsed_of_def raised_def isinstance_def
      ascii_lower_def ascii_lower_char_def)

text \<open>
  The claim as the specification words it fails in two ways. A connection that breaks
  while the body is read reaches the code as a \<open>ChunkedEncodingError\<close>, which is not a
  \<open>ConnectionError\<close>: the result is the request-error text, none of the three of the
  claim. A connection attempt that times out is a \<open>ConnectTimeout\<close>, a
  \<open>ConnectionError\<close> that the handler of \<open>Timeout\<close> takes first.
\<close>

theorem connection_failure_classes_counterexample:
  "fst (check_url
         (fixed_env (Inr (parsed_of ''http'' ''example.com''))
            (Inl (raised ChunkedEncodingError
               ''Connection broken: ConnectionResetError(104, Connection reset by peer)'')))
         ''http://example.com'' 5 False)
     = Inr (False,
         ''Request error: Connection broken: ConnectionResetError(104, Connection reset by peer)'')
   \<and> isinstance (raised ConnectTimeout ''Connection to example.com timed out'') ConnectionError
   \<and> fst (check_url
         (fixed_env (Inr (parsed_of ''http'' ''example.com''))
            (Inl (raised ConnectTimeout ''Connection to example.com timed out'')))
         ''http://example.com'' 5 False)
     = Inr (False, ''Connection timeout: Request took too long to respond'')"
  by (simp add: check_url_def validate_def validate_body_def try_except_def attempt_request_def
      get_request_def fixed_env_def parsed_of_def raised_def isinstance_def Let_def)




section \<open>Totality\<close>

text \<open>
  C1. \<open>check_url\<close> always returns a pair and never lets an exception through to its
  caller, for every URL, timeout and flag and whatever the parser and the network do.
  Each failure path ends in a pair whose flag is false: a parser that raises; an input
  that fails one of the checks on the parsed URL; a request that raises, whatever the
  class of the exception; a response that was not redirected and has a status code from
  400 up to 599.
\<close>

theorem check_url_never_raises:
  "(\<exists>b s. fst (check_url ev url timeout uba) = Inr (b, s))
   \<and> (urlparse ev url = Inl e \<longrightarrow>
        fst (check_url ev url timeout uba) = Inr (False, ''Invalid URL format: '' @ exc_str e))
   \<and> (urlparse ev url = Inr p
        \<and> (scheme p = [] \<or> netloc p = [] \<or> scheme p \<notin> set [''http'', ''https'']) \<longrightarrow>
        (\<exists>s. fst (check_url ev url timeout uba) = Inr (False, s)))
   \<and> (validate ev url = Inr None
        \<and> requests_get ev (get_request url timeout uba) = Inl e \<longrightarrow>
        (\<exists>s. fst (check_url ev url timeout uba) = Inr (False, s)))
   \<and> (validate ev url = Inr None
        \<and> requests_get ev (get_request url timeout uba) = Inr r
        \<and> history r = [] \<and> 400 \<le> status_code r \<and> status_code r < 600 \<longrightarrow>
        (\<exists>s. fst (check_url ev url timeout uba) = Inr (False, s)))"
proof -
  have returns: "\<exists>b s. fst (check_url ev url timeout uba) = Inr (b, s)"
  proof -
    obtain v where v: "validate ev url = Inr v"
      using validate_returns by blast
    show ?thesis
    proof (cases v)
      case None
      with v attempt_request_returns [of ev "get_request url timeout uba"] show ?thesis
        by (auto simp add: check_url_requests)
    next
      case (Some rejected)
      with v show ?thesis
        by (cases rejected) (simp add: check_url_rejected)
    qed
  qed
  have parser_raises: "fst (check_url ev url timeout uba) =
      Inr (False, ''Invalid URL format: '' @ exc_str e)"
    if "urlparse ev url = Inl e"
    using that by (simp add: validate_raise check_url_rejected)
  have malformed: "\<exists>s. fst (check_url ev url timeout uba) = Inr (False, s)"
    if "urlparse ev url = Inr p"
      "scheme p = [] \<or> netloc p = [] \<or> scheme p \<notin> set [''http'', ''https'']"
  proof -
    from that have "validate ev url \<noteq> Inr None"
      by (auto simp add: validate_passes_iff)
    with validate_returns [of ev url] obtain rejected
      where rejected: "validate ev url = Inr (Some rejected)"
      by auto
    from validate_rejects [OF rejected] check_url_rejected [OF rejected, of timeout uba]
    show ?thesis
      by (cases rejected) auto
  qed
  have request_raises: "\<exists>s. fst (check_url ev url timeout uba) = Inr (False, s)"
    if "validate ev url = Inr None" "requests_get ev (get_request url timeout uba) = Inl e"
    using that attempt_request_raise_fails [of ev "get_request url timeout uba" e]
    by (auto simp add: check_url_requests)
  have error_status: "\<exists>s. fst (check_url ev url timeout uba) = Inr (False, s)"
    if "validate ev url = Inr None" "requests_get ev (get_request url timeout uba) = Inr r"
      "history r = []" "400 \<le> status_code r" "status_code r < 600"
    using that
    by (simp add: check_url_requests attempt_request_response classify_response_def)
  from returns parser_raises malformed request_raises error_status show ?thesis
    by blast
qed

theorem check_url_never_raises_witness:
  "fst (check_url (fixed_env (Inl (raised ValueError ''Invalid IPv6 URL'')) (Inr ok_response))
         ''http://[::1/'' 5 False)
     = Inr (False, ''Invalid URL format: Invalid IPv6 URL'')
   \<and> (\<exists>s. fst (check_url (fixed_env (Inr (parsed_of '''' '''')) (Inr ok_response))
         ''not-a-valid-url'' 5 False) = Inr (False, s))
   \<and> (\<exists>s. fst (check_url
         (fixed_env (Inr (parsed_of ''http'' ''example.com''))
            (Inl (raised TypeError ''unexpected'')))
         ''http://example.com'' 0 True) = Inr (False, s))
   \<and> (\<exists>s. fst (check_url
         (fixed_env (Inr (parsed_of ''http'' ''example.com''))
            (Inr \<lparr>status_code = 500, response_url = ''http://example.com'', history = []\<rparr>))
         ''http://example.com'' 5 False) = Inr (False, s))"
  using
    check_url_never_raises [of
      "fixed_env (Inl (raised ValueError ''Invalid IPv6 URL'')) (Inr ok_response)"
      "''http://[::1/''" 5 False "raised ValueError ''Invalid IPv6 URL''"
      "parsed_of '''' ''''" ok_response]
    check_url_never_raises [of
      "fixed_env (Inr (parsed_of '''' '''')) (Inr ok_response)"
      "''not-a-valid-url''" 5 False "raised ValueError ''''"
      "parsed_of '''' ''''" ok_response]
    check_url_never_raises [of
      "fixed_env (Inr (parsed_of ''http'' ''example.com'')) (Inl (raised TypeError ''unexpected''))"
      "''http://example.com''" 0 True "raised TypeError ''unexpected''"
      "parsed_of ''http'' ''example.com''" ok_response]
    check_url_never_raises [of
      "fixed_env (Inr (parsed_of ''http'' ''example.com''))
         (Inr \<lparr>status_code = 500, response_url = ''http://example.com'', history = []\<rparr>)"
      "''http://example.com''" 5 False "raised ValueError ''''"
      "parsed_of ''http'' ''example.com''"
      "\<lparr>status_code = 500, response_url = ''http://example.com'', history = []\<rparr>"]
  by (simp add: validate_passes_iff fixed_env_def parsed_of_def raised_def)

text \<open>
  C8. Whatever branch is taken, \<open>check_url\<close> returns a pair whose explanation is not the
  empty string.
\<close>

theorem explanation_never_empty:
  "\<exists>b s. fst (check_url ev url timeout uba) = Inr (b, s) \<and> s \<noteq> []"
proof -
  obtain v where v: "validate ev url = Inr v"
    using validate_returns by blast
  show ?thesis
  proof (cases v)
    case None
    with v have "fst (check_url ev url timeout uba) =
        attempt_request ev (get_request url timeout uba)"
      by (simp add: check_url_requests)
    with attempt_request_returns [of ev "get_request url timeout uba"] show ?thesis
      by simp
  next
    case (Some rejected)
    with v have rejected: "validate ev url = Inr (Some rejected)" by simp
    from validate_rejects [OF rejected] check_url_rejected [OF rejected, of timeout uba]
    show ?thesis
      by (cases rejected) auto
  qed
qed

theorem explanation_never_empty_witness:
  "\<exists>b s. fst (check_url
         (fixed_env (Inr (parsed_of ''http'' ''example.com''))
            (Inl (raised RetryError '''')))
         ''http://example.com'' 5 False) = Inr (b, s) \<and> s \<noteq> []"
  by (rule explanation_never_empty)

end
